theory Spec2Isabelle
  imports Complex_Main
begin

section \<open>Regulome derivation of pySCENIC (\<open>src/pyscenic/regulome.py\<close>)\<close>

text \<open>
  A shallow embedding of \<open>module2regulome\<close> and \<open>derive_regulomes\<close>. Python exceptions
  are values of type \<open>error\<close>; a function that can raise returns \<open>error + 'a\<close>, with
  \<open>Inl\<close> for the exception.
\<close>

datatype error = KeyError | ValueError | IndexError | OverflowError | TypeError

definition ebind :: "error + 'a \<Rightarrow> ('a \<Rightarrow> error + 'b) \<Rightarrow> error + 'b" where
  "ebind m f = (case m of Inl e \<Rightarrow> Inl e | Inr x \<Rightarrow> f x)"

subsection \<open>Floating-point values\<close>

text \<open>
  A Python or numpy float is a finite value, an infinity or not-a-number. A finite value
  is the real number it stands for; the sign of zero is not modelled. The operations
  \<open>fadd\<close>, \<open>fmul\<close>, \<open>fdiv\<close> and \<open>fsqrt\<close> below give the exact result on finite values and
  follow IEEE 754 on the special values, as numpy array arithmetic does (no exception, the
  result is an infinity or NaN). The operations of the machine, which round the exact
  result to a double, follow them.
\<close>

datatype pyfloat = Fin real | PInf | NInf | NaN

fun isnan :: "pyfloat \<Rightarrow> bool" where
  "isnan NaN = True"
| "isnan _ = False"

fun fneg :: "pyfloat \<Rightarrow> pyfloat" where
  "fneg (Fin a) = Fin (- a)"
| "fneg PInf = NInf"
| "fneg NInf = PInf"
| "fneg NaN = NaN"

fun fadd :: "pyfloat \<Rightarrow> pyfloat \<Rightarrow> pyfloat" where
  "fadd (Fin a) (Fin b) = Fin (a + b)"
| "fadd NaN _ = NaN"
| "fadd _ NaN = NaN"
| "fadd PInf NInf = NaN"
| "fadd NInf PInf = NaN"
| "fadd (Fin a) y = y"
| "fadd x _ = x"

definition fsub :: "pyfloat \<Rightarrow> pyfloat \<Rightarrow> pyfloat" where
  "fsub x y = fadd x (fneg y)"

fun fmul :: "pyfloat \<Rightarrow> pyfloat \<Rightarrow> pyfloat" where
  "fmul (Fin a) (Fin b) = Fin (a * b)"
| "fmul NaN _ = NaN"
| "fmul _ NaN = NaN"
| "fmul (Fin a) y = (if a = 0 then NaN else if 0 < a then y else fneg y)"
| "fmul x (Fin b) = (if b = 0 then NaN else if 0 < b then x else fneg x)"
| "fmul PInf y = y"
| "fmul NInf y = fneg y"

fun fdiv :: "pyfloat \<Rightarrow> pyfloat \<Rightarrow> pyfloat" where
  "fdiv (Fin a) (Fin b) =
     (if b = 0 then (if a = 0 then NaN else if 0 < a then PInf else NInf) else Fin (a / b))"
| "fdiv NaN _ = NaN"
| "fdiv _ NaN = NaN"
| "fdiv (Fin a) _ = Fin 0"
| "fdiv x (Fin b) = (if 0 \<le> b then x else fneg x)"
| "fdiv _ _ = NaN"

fun fsqrt :: "pyfloat \<Rightarrow> pyfloat" where
  "fsqrt (Fin a) = (if a < 0 then NaN else Fin (sqrt a))"
| "fsqrt PInf = PInf"
| "fsqrt _ = NaN"

text \<open>\<open>x >= y\<close> and \<open>x != y\<close> on floats: every comparison with NaN but \<open>!=\<close> is false.\<close>

fun fge :: "pyfloat \<Rightarrow> pyfloat \<Rightarrow> bool" where
  "fge NaN _ = False"
| "fge _ NaN = False"
| "fge (Fin a) (Fin b) = (b \<le> a)"
| "fge PInf _ = True"
| "fge _ NInf = True"
| "fge _ _ = False"

fun fne :: "pyfloat \<Rightarrow> pyfloat \<Rightarrow> bool" where
  "fne NaN _ = True"
| "fne _ NaN = True"
| "fne x y = (x \<noteq> y)"

text \<open>\<open>math.log\<close>: a \<open>ValueError\<close> (math domain error) outside the positive numbers.\<close>

fun math_log :: "pyfloat \<Rightarrow> error + pyfloat" where
  "math_log (Fin a) = (if 0 < a then Inr (Fin (ln a)) else Inl ValueError)"
| "math_log PInf = Inr PInf"
| "math_log NInf = Inl ValueError"
| "math_log NaN = Inr NaN"

subsection \<open>Rounding to a double\<close>

text \<open>
  A double has a significand of 53 bits and an exponent from \<open>-1022\<close> to \<open>1023\<close>; below
  \<open>2 ^ -1022\<close> the spacing stays \<open>2 ^ -1074\<close> (subnormal numbers). \<open>binary64 x\<close> is the double
  nearest to the real \<open>x\<close>, the one with the even significand when two are equally near,
  and an infinity when the rounded value is beyond the largest double.
\<close>

definition round_half_even :: "real \<Rightarrow> int" where
  "round_half_even x =
     (let f = \<lfloor>x\<rfloor>; d = x - of_int f
      in if d < 1/2 then f else if 1/2 < d then f + 1 else if even f then f else f + 1)"

definition binary64 :: "real \<Rightarrow> pyfloat" where
  "binary64 x =
     (if x = 0 then Fin 0
      else
        let e = max (\<lfloor>log 2 \<bar>x\<bar>\<rfloor> - 52) (- 1074);
            y = of_int (round_half_even (x / 2 powi e)) * 2 powi e
        in if 2 ^ 1024 \<le> \<bar>y\<bar> then (if 0 < x then PInf else NInf) else Fin y)"

fun round_float :: "pyfloat \<Rightarrow> pyfloat" where
  "round_float (Fin a) = binary64 a"
| "round_float x = x"

text \<open>
  The arithmetic of Python floats and of numpy arrays of doubles: the exact result,
  rounded.
\<close>

definition float_add :: "pyfloat \<Rightarrow> pyfloat \<Rightarrow> pyfloat" where
  "float_add x y = round_float (fadd x y)"

definition float_sub :: "pyfloat \<Rightarrow> pyfloat \<Rightarrow> pyfloat" where
  "float_sub x y = round_float (fsub x y)"

definition float_mul :: "pyfloat \<Rightarrow> pyfloat \<Rightarrow> pyfloat" where
  "float_mul x y = round_float (fmul x y)"

definition float_div :: "pyfloat \<Rightarrow> pyfloat \<Rightarrow> pyfloat" where
  "float_div x y = round_float (fdiv x y)"

definition float_sqrt :: "pyfloat \<Rightarrow> pyfloat" where
  "float_sqrt x = round_float (fsqrt x)"

subsection \<open>The scoring function of \<open>module2regulome\<close> (lines 76--79)\<close>

text \<open>
  \<^verbatim>\<open>
  def score(nes, motif_similarity_qval, orthologuous_identity):
      MAX_VALUE = 100
      score = nes * -math.log(motif_similarity_qval)/MAX_VALUE \
              if not math.isnan(motif_similarity_qval) and motif_similarity_qval != 0.0 else nes
      return score if math.isnan(orthologuous_identity) else score * orthologuous_identity
  \<close>
  The product \<open>nes * -math.log(q)\<close> is formed first and then divided by \<open>MAX_VALUE\<close>.
  The score is stated in the exact operations: its value is a formula in the NES, the
  q-value and the identity, which rounding changes in the last place only and which
  decides no branch. The arithmetic that decides which features are selected (line 48)
  and whether the random range is empty (line 71) is the rounded one.
\<close>

definition MAX_VALUE :: pyfloat where
  "MAX_VALUE = Fin 100"

definition module2regulome_score :: "pyfloat \<Rightarrow> pyfloat \<Rightarrow> pyfloat \<Rightarrow> error + pyfloat" where
  "module2regulome_score nes motif_similarity_qval orthologuous_identity =
     ebind (if \<not> isnan motif_similarity_qval \<and> fne motif_similarity_qval (Fin 0)
            then ebind (math_log motif_similarity_qval)
                   (\<lambda>l. Inr (fdiv (fmul nes (fneg l)) MAX_VALUE))
            else Inr nes)
       (\<lambda>score. Inr (if isnan orthologuous_identity then score
                      else fmul score orthologuous_identity))"

text \<open>
  The scoring rule as the claim words it: the score is \<open>N\<close> when the q-value is undefined
  or zero and the identity is undefined; in every other case it is \<open>N * (- ln q) / 100\<close>,
  multiplied by the identity when that is defined. The logarithm is the IEEE one
  (\<open>- infinity\<close> at zero, NaN on negative numbers and on NaN).
\<close>

fun ieee_log :: "pyfloat \<Rightarrow> pyfloat" where
  "ieee_log (Fin a) = (if 0 < a then Fin (ln a) else if a = 0 then NInf else NaN)"
| "ieee_log PInf = PInf"
| "ieee_log _ = NaN"

definition score_as_claimed :: "pyfloat \<Rightarrow> pyfloat \<Rightarrow> pyfloat \<Rightarrow> pyfloat" where
  "score_as_claimed N q identity =
     (if (isnan q \<or> q = Fin 0) \<and> isnan identity then N
      else let s = fdiv (fmul N (fneg (ieee_log q))) (Fin 100)
           in if isnan identity then s else fmul s identity)"

subsection \<open>numpy reductions and indexing\<close>

text \<open>
  \<open>a.mean()\<close> is the sum divided by the number of elements and \<open>a.std()\<close> the square
  root of the mean squared deviation (numpy's default, \<open>ddof = 0\<close>), every operation
  rounded. On an empty array both are \<open>0/0\<close>, that is NaN, with a warning and no
  exception. The sum adds the elements in sequence, which is numpy's order for an array
  of fewer than 8 elements and for a reduction along the rows of a matrix; a longer
  one-dimensional array is summed by numpy in blocks, which can differ in the last place.
\<close>

definition np_sum :: "pyfloat list \<Rightarrow> pyfloat" where
  "np_sum xs = foldl float_add (Fin 0) xs"

definition np_mean :: "pyfloat list \<Rightarrow> pyfloat" where
  "np_mean xs = float_div (np_sum xs) (binary64 (real (length xs)))"

definition np_std :: "pyfloat list \<Rightarrow> pyfloat" where
  "np_std xs =
     (let arrmean = np_mean xs
      in float_sqrt (np_mean (map (\<lambda>x. let d = float_sub x arrmean in float_mul d d) xs)))"

text \<open>
  \<open>a[mask]\<close> with a boolean array keeps the entries (rows) whose flag is set; a mask of
  another length than the array is an \<open>IndexError\<close>.
\<close>

definition mask_index :: "'a list \<Rightarrow> bool list \<Rightarrow> error + 'a list" where
  "mask_index xs flags =
     (if length flags \<noteq> length xs then Inl IndexError
      else Inr (map fst (filter snd (zip xs flags))))"

text \<open>\<open>a[i, :]\<close> with an integer \<open>i\<close>: row \<open>i\<close>, or row \<open>len(a) + i\<close> for a negative \<open>i\<close>.\<close>

definition row_index :: "'a list \<Rightarrow> int \<Rightarrow> error + 'a" where
  "row_index xs i =
     (if 0 \<le> i \<and> i < int (length xs) then Inr (xs ! nat i)
      else if i < 0 \<and> - int (length xs) \<le> i then Inr (xs ! nat (int (length xs) + i))
      else Inl IndexError)"

text \<open>\<open>int(x)\<close> of a float truncates towards zero and raises on NaN and on an infinity.\<close>

fun py_int :: "pyfloat \<Rightarrow> error + int" where
  "py_int (Fin a) = Inr (if 0 \<le> a then \<lfloor>a\<rfloor> else \<lceil>a\<rceil>)"
| "py_int NaN = Inl ValueError"
| "py_int _ = Inl OverflowError"

text \<open>
  \<open>np.random.randint(low, high)\<close> without \<open>size\<close> returns one integer of the half-open
  range \<open>[low, high)\<close> and raises \<open>ValueError\<close> when the range is empty. The state of the
  generator is the explicit argument \<open>draw\<close>, reduced into the range.
\<close>

definition np_random_randint :: "nat \<Rightarrow> int \<Rightarrow> int \<Rightarrow> error + int" where
  "np_random_randint draw low high =
     (if high \<le> low then Inl ValueError else Inr (low + int draw mod (high - low)))"

text \<open>Running a fallible function over a list stops at the first exception.\<close>

fun emap :: "('a \<Rightarrow> error + 'b) \<Rightarrow> 'a list \<Rightarrow> error + 'b list" where
  "emap f [] = Inr []"
| "emap f (x # xs) = ebind (f x) (\<lambda>y. ebind (emap f xs) (\<lambda>ys. Inr (y # ys)))"

text \<open>\<open>functools.reduce\<close> without an initial value: a \<open>TypeError\<close> on an empty sequence.\<close>

definition py_reduce :: "('a \<Rightarrow> 'a \<Rightarrow> 'a) \<Rightarrow> 'a list \<Rightarrow> error + 'a" where
  "py_reduce f xs = (case xs of [] \<Rightarrow> Inl TypeError | x # rest \<Rightarrow> Inr (foldl f x rest))"

subsection \<open>Data\<close>

text \<open>
  A \<open>Regulome\<close> as the constructor call of lines 84--91 fills it. The field \<open>context\<close> is
  named \<open>context_labels\<close> here, and a variable \<open>module\<close> of the source is \<open>modul\<close>.
\<close>

record regulome =
  name :: string
  score :: pyfloat
  nomenclature :: string
  context_labels :: "string set"
  transcription_factor :: string
  gene2weights :: "(string \<times> pyfloat) list"

text \<open>
  Modelled from the spec: \<open>module[gene]\<close>, the weight of the module for a gene
  (\<open>genesig.py\<close> is not among the sources). A gene that the module does not hold is a
  \<open>KeyError\<close>.
\<close>

definition getitem :: "regulome \<Rightarrow> string \<Rightarrow> error + pyfloat" where
  "getitem modul gene =
     (case map_of (gene2weights modul) gene of None \<Rightarrow> Inl KeyError | Some w \<Rightarrow> Inr w)"

text \<open>
  The data frame that \<open>db.load(module)\<close> returns: feature ids as index, gene ids as
  columns, one row of ranks for each feature.
\<close>

record rank_table =
  df_index :: "string list"
  df_columns :: "string list"
  df_values :: "int list list"

record ranking_database =
  db_name :: string
  total_genes :: int
  load :: "regulome \<Rightarrow> rank_table"

text \<open>A row of the motif annotation table, keyed by (\<open>gene_name\<close>, \<open>#motif_id\<close>).\<close>

record annotation =
  ann_gene_name :: string
  ann_motif_id :: string
  ann_motif_similarity_qvalue :: pyfloat
  ann_orthologous_identity :: pyfloat

text \<open>
  A row of \<open>enriched_features\<close> (index (\<open>gene_name\<close>, \<open>#motif_id\<close>), columns NES and AUC) and
  a row of \<open>annotated_features\<close>, which has the columns of the annotation table as well.
\<close>

record feature_row =
  gene_name :: string
  motif_id :: string
  NES :: pyfloat
  AUC :: pyfloat

record annotated_row = feature_row +
  motif_similarity_qvalue :: pyfloat
  orthologous_identity :: pyfloat

text \<open>The baseline handed to the leading-edge kernel is an array or a single number.\<close>

datatype ndarray = Scalar pyfloat | Array1 "pyfloat list"

text \<open>
  The collaborators that \<open>regulome.py\<close> imports and calls: the two kernels of
  \<open>recovery.py\<close>, \<open>noweights\<close> and \<open>union\<close> of the \<open>Regulome\<close> type and the annotation
  loader. They are parameters of the model; the kernels and the \<open>Regulome\<close> methods are
  taken to return, the loader may raise.
\<close>

record collaborators =
  recovery :: "rank_table \<Rightarrow> int \<Rightarrow> pyfloat list \<Rightarrow> int \<Rightarrow> pyfloat
                 \<Rightarrow> pyfloat list list \<times> pyfloat list"
  leading_edge :: "pyfloat list \<Rightarrow> ndarray \<Rightarrow> int list \<Rightarrow> string list \<Rightarrow> regulome
                 \<Rightarrow> (string \<times> pyfloat) list"
  noweights :: "regulome \<Rightarrow> regulome"
  regulome_union :: "regulome \<Rightarrow> regulome \<Rightarrow> regulome"
  load_motif_annotations :: "string \<Rightarrow> pyfloat \<Rightarrow> pyfloat \<Rightarrow> error + annotation list"

subsection \<open>\<open>module2regulome\<close>, step by step\<close>

text \<open>
  Lines 42--47: load the ranks, look the weight of every column gene up in the module and
  call the recovery kernel.
  \<^verbatim>\<open>
  df = db.load(module)
  features, genes, rankings = df.index.values, df.columns.values, df.values
  weights = np.asarray([module[gene] for gene in genes])
  rccs, aucs = recovery(df, db.total_genes, weights, rank_threshold, auc_threshold)
  \<close>
\<close>

definition recovery_curves ::
  "collaborators \<Rightarrow> ranking_database \<Rightarrow> regulome \<Rightarrow> int \<Rightarrow> pyfloat
     \<Rightarrow> error + (pyfloat list list \<times> pyfloat list)" where
  "recovery_curves E db modul rank_threshold auc_threshold =
     (let df = load db modul; genes = df_columns df
      in ebind (emap (getitem modul) genes)
           (\<lambda>weights. Inr (recovery E df (total_genes db) weights rank_threshold auc_threshold)))"

text \<open>Line 48: \<^verbatim>\<open>ness = (aucs - aucs.mean()) / aucs.std()\<close>\<close>

definition nes_values :: "pyfloat list \<Rightarrow> pyfloat list" where
  "nes_values aucs =
     (let m = np_mean aucs; s = np_std aucs in map (\<lambda>a. float_div (float_sub a m) s) aucs)"

text \<open>
  Lines 51--56: the mask \<open>ness >= nes_threshold\<close> and the frame of the enriched features,
  one row for each selected feature (none when the mask selects nothing).
  \<^verbatim>\<open>
  enriched_features_idx = ness >= nes_threshold
  enriched_features = pd.DataFrame(
      index=pd.MultiIndex.from_tuples(
          list(zip(repeat(module.transcription_factor), features[enriched_features_idx])),
          names=["gene_name", "#motif_id"]),
      data={COLUMN_NAME_NES: ness[enriched_features_idx],
            COLUMN_NAME_AUC: aucs[enriched_features_idx]})
  \<close>
\<close>

definition enriched_features_idx :: "pyfloat list \<Rightarrow> pyfloat \<Rightarrow> bool list" where
  "enriched_features_idx ness nes_threshold = map (\<lambda>n. fge n nes_threshold) ness"

definition enriched_features ::
  "string \<Rightarrow> string list \<Rightarrow> pyfloat list \<Rightarrow> pyfloat list \<Rightarrow> bool list
     \<Rightarrow> error + feature_row list" where
  "enriched_features tf features ness aucs idx =
     ebind (mask_index features idx) (\<lambda>fs.
     ebind (mask_index ness idx) (\<lambda>ns.
     ebind (mask_index aucs idx) (\<lambda>as.
       Inr (map (\<lambda>(f, n, a). \<lparr>gene_name = tf, motif_id = f, NES = n, AUC = a\<rparr>)
              (zip fs (zip ns as))))))"

text \<open>
  Line 61: \<^verbatim>\<open>pd.merge(enriched_features, motif_annotations, how="inner",
  left_index=True, right_index=True)\<close>. An inner join on the index: one row for every pair
  of a left row and a right row with the same key, in the order of the left keys.
\<close>

definition pd_merge_inner :: "feature_row list \<Rightarrow> annotation list \<Rightarrow> annotated_row list" where
  "pd_merge_inner left right =
     concat (map (\<lambda>l.
        map (\<lambda>r. \<lparr>gene_name = gene_name l, motif_id = motif_id l, NES = NES l, AUC = AUC l,
                   motif_similarity_qvalue = ann_motif_similarity_qvalue r,
                   orthologous_identity = ann_orthologous_identity r\<rparr>)
          (filter (\<lambda>r. ann_gene_name r = gene_name l \<and> ann_motif_id r = motif_id l) right))
        left)"

text \<open>
  Lines 66--73: the average recovery curve and the curve two standard deviations above.
  \<^verbatim>\<open>
  if avgrcc_sample_frac is None:
      avgrcc = rccs.mean(axis=0)
      avg2stdrcc =  avgrcc + 2.0 * rccs.std(axis=0)
  else:
      n_features = len(features)
      sample_idx = np.random.randint(0, int(n_features*avgrcc_sample_frac))
      avgrcc = rccs[sample_idx, :].mean(axis=0)
      avg2stdrcc = avgrcc + 2.0 * rccs[sample_idx, :].std(axis=0)
  \<close>
  With \<open>axis=0\<close> a matrix is reduced column by column. \<open>sample_idx\<close> is one integer, so
  \<open>rccs[sample_idx, :]\<close> is one row and its reductions are single numbers.
\<close>

definition leading_edge_baseline ::
  "pyfloat list list \<Rightarrow> string list \<Rightarrow> pyfloat option \<Rightarrow> nat \<Rightarrow> error + (ndarray \<times> ndarray)" where
  "leading_edge_baseline rccs features avgrcc_sample_frac draw =
     (case avgrcc_sample_frac of
        None \<Rightarrow>
          (let avgrcc = map np_mean (transpose rccs)
           in Inr (Array1 avgrcc,
                   Array1 (map2 float_add avgrcc
                             (map (\<lambda>c. float_mul (Fin 2) (np_std c)) (transpose rccs)))))
      | Some sample_frac \<Rightarrow>
          (let n_features = length features
           in ebind (py_int (float_mul (binary64 (real n_features)) sample_frac)) (\<lambda>high.
              ebind (np_random_randint draw 0 high) (\<lambda>sample_idx.
              ebind (row_index rccs sample_idx) (\<lambda>row.
                let avgrcc = np_mean row
                in Inr (Scalar avgrcc,
                        Scalar (float_add avgrcc (float_mul (Fin 2) (np_std row)))))))))"

text \<open>
  Lines 81--91: the loop over the zipped rows and the \<open>Regulome\<close> built in its body.
  \<^verbatim>\<open>
  for (_, row), rcc, ranking in zip(annotated_features.iterrows(),
                                    rccs[enriched_features_idx, :],
                                    rankings[enriched_features_idx, :]):
      regulomes.append(Regulome(name=module.name,
                                score=score(row[COLUMN_NAME_NES],
                                            row[COLUMN_NAME_MOTIF_SIMILARITY_QVALUE],
                                            row[COLUMN_NAME_ORTHOLOGOUS_IDENTITY]),
                                nomenclature=module.nomenclature,
                                context=module.context.union(frozenset([db.name])),
                                transcription_factor=module.transcription_factor,
                                gene2weights=leading_edge(rcc, avg2stdrcc, ranking, genes, _module)))
  \<close>
  \<open>zip\<close> stops with its shortest argument.
\<close>

definition loop_items ::
  "annotated_row list \<Rightarrow> pyfloat list list \<Rightarrow> int list list \<Rightarrow> bool list
     \<Rightarrow> error + (annotated_row \<times> pyfloat list \<times> int list) list" where
  "loop_items annotated_features rccs rankings idx =
     ebind (mask_index rccs idx) (\<lambda>rccs_enriched.
     ebind (mask_index rankings idx) (\<lambda>rankings_enriched.
       Inr (zip annotated_features (zip rccs_enriched rankings_enriched))))"

definition make_regulome ::
  "collaborators \<Rightarrow> ranking_database \<Rightarrow> regulome \<Rightarrow> ndarray \<Rightarrow> string list \<Rightarrow> regulome
     \<Rightarrow> annotated_row \<times> pyfloat list \<times> int list \<Rightarrow> error + regulome" where
  "make_regulome E db modul avg2stdrcc genes modul' item =
     (case item of (row, rcc, ranking) \<Rightarrow>
        ebind (module2regulome_score (NES row) (motif_similarity_qvalue row)
                 (orthologous_identity row))
          (\<lambda>s. Inr \<lparr>name = name modul,
                     score = s,
                     nomenclature = nomenclature modul,
                     context_labels = context_labels modul \<union> {db_name db},
                     transcription_factor = transcription_factor modul,
                     gene2weights = leading_edge E rcc avg2stdrcc ranking genes modul'\<rparr>))"

text \<open>
  The whole function. \<open>None\<close> and the regulome are the two results of the source, the
  exceptions are the left summand. \<open>modul'\<close> is \<open>_module\<close> of line 82.
\<close>

definition module2regulome ::
  "collaborators \<Rightarrow> ranking_database \<Rightarrow> regulome \<Rightarrow> annotation list \<Rightarrow> int \<Rightarrow> pyfloat
     \<Rightarrow> pyfloat \<Rightarrow> pyfloat option \<Rightarrow> bool \<Rightarrow> nat \<Rightarrow> error + regulome option" where
  "module2regulome E db modul motif_annotations rank_threshold auc_threshold nes_threshold
       avgrcc_sample_frac weighted_recovery draw =
     (let df = load db modul;
          features = df_index df; genes = df_columns df; rankings = df_values df
      in ebind (recovery_curves E db modul rank_threshold auc_threshold) (\<lambda>(rccs, aucs).
         let ness = nes_values aucs;
             idx = enriched_features_idx ness nes_threshold
         in ebind (enriched_features (transcription_factor modul) features ness aucs idx)
              (\<lambda>enriched.
         if length enriched = 0 then Inr None
         else
           let annotated_features = pd_merge_inner enriched motif_annotations
           in if length annotated_features = 0 then Inr None
              else
                ebind (leading_edge_baseline rccs features avgrcc_sample_frac draw)
                  (\<lambda>(avgrcc, avg2stdrcc).
                let modul' = (if weighted_recovery then modul else noweights E modul)
                in ebind (loop_items annotated_features rccs rankings idx) (\<lambda>items.
                   ebind (emap (make_regulome E db modul avg2stdrcc genes modul') items)
                     (\<lambda>regulomes.
                   ebind (py_reduce (regulome_union E) regulomes) (\<lambda>r. Inr (Some r))))))))"

subsection \<open>\<open>derive_regulomes\<close>\<close>

text \<open>
  The built-in \<open>filter\<close> takes its two arguments by position and accepts no keyword
  argument: a call with one raises \<open>TypeError\<close>. \<open>functools.partial\<close> stores positional and
  keyword arguments and passes them on together with those of the later call.
\<close>

datatype 'a pyarg = Function "'a \<Rightarrow> bool" | Iterable "'a list"

definition builtin_filter :: "'a pyarg list \<Rightarrow> (string \<times> 'a pyarg) list \<Rightarrow> error + 'a list" where
  "builtin_filter args kwargs =
     (case kwargs of
        _ # _ \<Rightarrow> Inl TypeError
      | [] \<Rightarrow> (case args of
                 [Function f, Iterable xs] \<Rightarrow> Inr (filter f xs)
               | _ \<Rightarrow> Inl TypeError))"

definition partial ::
  "('a list \<Rightarrow> (string \<times> 'a) list \<Rightarrow> 'r) \<Rightarrow> 'a list \<Rightarrow> (string \<times> 'a) list
     \<Rightarrow> 'a list \<Rightarrow> (string \<times> 'a) list \<Rightarrow> 'r" where
  "partial func args0 kwargs0 args kwargs = func (args0 @ args) (kwargs0 @ kwargs)"

definition not_none :: "'a option \<Rightarrow> bool" where
  "not_none r = (r \<noteq> None)"

text \<open>
  Lines 127--129, the generator of the delayed calls:
  \<^verbatim>\<open>
  (delayed(module2regulome)
     (db, gs, motif_annotations, rank_threshold, auc_threshold, nes_threshold, avgrcc_sample_frac)
        for db in rnkdbs for gs in modules)
  \<close>
  Seven arguments are passed by position; the eighth parameter of \<open>module2regulome\<close>,
  \<open>weighted_recovery\<close>, takes its default \<open>False\<close> of line 25. \<open>draws k\<close> is the state of the
  random generator in task \<open>k\<close>.
\<close>

definition weighted_recovery_default :: bool where
  "weighted_recovery_default = False"

definition derive_regulomes_tasks ::
  "collaborators \<Rightarrow> ranking_database list \<Rightarrow> regulome list \<Rightarrow> annotation list \<Rightarrow> int
     \<Rightarrow> pyfloat \<Rightarrow> pyfloat \<Rightarrow> pyfloat option \<Rightarrow> (nat \<Rightarrow> nat)
     \<Rightarrow> (error + regulome option) list" where
  "derive_regulomes_tasks E rnkdbs modules motif_annotations rank_threshold auc_threshold
       nes_threshold avgrcc_sample_frac draws =
     map (\<lambda>(k, db, gs).
            module2regulome E db gs motif_annotations rank_threshold auc_threshold nes_threshold
              avgrcc_sample_frac weighted_recovery_default (draws k))
       (enumerate 0 (concat (map (\<lambda>db. map (\<lambda>gs. (db, gs)) modules) rnkdbs)))"

text \<open>
  Lines 123--130.
  \<^verbatim>\<open>
  motif_annotations = load_motif_annotations(motif_annotations_fname,
                                             motif_similarity_fdr, orthologuous_identity_threshold)
  not_none = lambda r: r is not None
  regulomes = delayed(compose(list, partial(filter, function=not_none)))(
      (delayed(module2regulome)(...) for db in rnkdbs for gs in modules))
  return regulomes.compute(get=get,
      num_workers=num_workers if num_workers else multiprocessing.cpu_count())
  \<close>
  The scheduler is not modelled: the tasks are evaluated in the order of the generator, the
  first exception among them is the one raised, and \<open>num_workers\<close> has no part in the
  value. The composed function then receives the list of the task results as its one
  positional argument; \<open>list\<close> is the identity on a list.
\<close>

definition derive_regulomes ::
  "collaborators \<Rightarrow> ranking_database list \<Rightarrow> regulome list \<Rightarrow> string \<Rightarrow> int \<Rightarrow> pyfloat
     \<Rightarrow> pyfloat \<Rightarrow> pyfloat \<Rightarrow> pyfloat \<Rightarrow> pyfloat option \<Rightarrow> bool \<Rightarrow> nat option
     \<Rightarrow> (nat \<Rightarrow> nat) \<Rightarrow> error + regulome option list" where
  "derive_regulomes E rnkdbs modules motif_annotations_fname rank_threshold auc_threshold
       nes_threshold motif_similarity_fdr orthologuous_identity_threshold avgrcc_sample_frac
       weighted_recovery num_workers draws =
     ebind (load_motif_annotations E motif_annotations_fname motif_similarity_fdr
              orthologuous_identity_threshold) (\<lambda>motif_annotations.
     ebind (emap id (derive_regulomes_tasks E rnkdbs modules motif_annotations rank_threshold
                       auc_threshold nes_threshold avgrcc_sample_frac draws)) (\<lambda>results.
       partial builtin_filter [] [(''function'', Function not_none)] [Iterable results] []))"

subsection \<open>Synthetic collaborators and inputs\<close>

text \<open>
  Stand-ins for the kernels, on which the functions above can be run. The recovery curve
  of a feature is its row of ranks and its AUC the weighted sum of that row, so that both
  identify the feature and the AUC shows the weights. The leading edge pairs the genes
  with the curve it was given and appends the baseline and the weights of the module it
  was given.
\<close>

definition stub_recovery ::
  "rank_table \<Rightarrow> int \<Rightarrow> pyfloat list \<Rightarrow> int \<Rightarrow> pyfloat \<Rightarrow> pyfloat list list \<times> pyfloat list" where
  "stub_recovery df n_genes weights rank_threshold auc_threshold =
     (map (map (\<lambda>r. Fin (real_of_int r))) (df_values df),
      map (\<lambda>row. np_sum (map2 (\<lambda>w r. fmul w (Fin (real_of_int r))) weights row)) (df_values df))"

definition stub_leading_edge ::
  "pyfloat list \<Rightarrow> ndarray \<Rightarrow> int list \<Rightarrow> string list \<Rightarrow> regulome \<Rightarrow> (string \<times> pyfloat) list" where
  "stub_leading_edge rcc avg2stdrcc ranking genes modul =
     zip genes rcc
     @ (case avg2stdrcc of Scalar b \<Rightarrow> [(''scalar baseline'', b)]
                          | Array1 bs \<Rightarrow> map (Pair ''array baseline'') bs)
     @ gene2weights modul"

definition stub_noweights :: "regulome \<Rightarrow> regulome" where
  "stub_noweights modul = modul\<lparr>gene2weights := map (\<lambda>(g, w). (g, Fin 1)) (gene2weights modul)\<rparr>"

definition stub_union :: "regulome \<Rightarrow> regulome \<Rightarrow> regulome" where
  "stub_union a b =
     a\<lparr>context_labels := context_labels a \<union> context_labels b,
       gene2weights := gene2weights a @ gene2weights b\<rparr>"

definition annotations_f2 :: "annotation list" where
  "annotations_f2 =
     [\<lparr>ann_gene_name = ''TF1'', ann_motif_id = ''f2'',
       ann_motif_similarity_qvalue = Fin 0, ann_orthologous_identity = NaN\<rparr>]"

definition stub_collaborators :: collaborators where
  "stub_collaborators =
     \<lparr>recovery = stub_recovery, leading_edge = stub_leading_edge, noweights = stub_noweights,
      regulome_union = stub_union,
      load_motif_annotations = (\<lambda>fname fdr identity. Inr annotations_f2)\<rparr>"

text \<open>
  A module of two genes, once with equal and once with unequal weights, a database of four
  features of which \<open>f1\<close> and \<open>f2\<close> rank the genes high, and one of two features.
\<close>

definition module_11 :: regulome where
  "module_11 =
     \<lparr>name = ''m'', score = Fin 0, nomenclature = ''HGNC'', context_labels = {''top50''},
      transcription_factor = ''TF1'', gene2weights = [(''g1'', Fin 1), (''g2'', Fin 1)]\<rparr>"

definition module_13 :: regulome where
  "module_13 = module_11\<lparr>gene2weights := [(''g1'', Fin 1), (''g2'', Fin 3)]\<rparr>"

definition db_four :: ranking_database where
  "db_four =
     \<lparr>db_name = ''db4'', total_genes = 10,
      load = (\<lambda>modul. \<lparr>df_index = [''f1'', ''f2'', ''f3'', ''f4''],
                        df_columns = [''g1'', ''g2''],
                        df_values = [[1, 1], [2, 0], [0, 0], [0, 0]]\<rparr>)\<rparr>"

definition db_two :: ranking_database where
  "db_two =
     \<lparr>db_name = ''db2'', total_genes = 10,
      load = (\<lambda>modul. \<lparr>df_index = [''f1'', ''f2''],
                        df_columns = [''g1'', ''g2''],
                        df_values = [[1, 0], [0, 1]]\<rparr>)\<rparr>"

text \<open>
  The enriched rows of \<open>db_four\<close> for \<open>module_11\<close> at the NES threshold 1, and the regulome
  that the stand-ins give for this pair with a sampling fraction of \<open>1/2\<close> and draw 1.
\<close>

definition rows_f1_f2 :: "feature_row list" where
  "rows_f1_f2 =
     [\<lparr>gene_name = ''TF1'', motif_id = ''f1'', NES = Fin 1, AUC = Fin 2\<rparr>,
      \<lparr>gene_name = ''TF1'', motif_id = ''f2'', NES = Fin 1, AUC = Fin 2\<rparr>]"

definition regulome_f2 :: regulome where
  "regulome_f2 =
     \<lparr>name = ''m'', score = Fin 1, nomenclature = ''HGNC'',
      context_labels = {''db4'', ''top50''}, transcription_factor = ''TF1'',
      gene2weights = [(''g1'', Fin 1), (''g2'', Fin 1), (''scalar baseline'', Fin 3),
                      (''g1'', Fin 1), (''g2'', Fin 1)]\<rparr>"

text \<open>
  Two pairs for the standardisation of line 48. The first has the AUCs \<open>2 ^ -600\<close> and
  \<open>2 ^ -599\<close>, whose squared deviations from the mean are below the smallest double. The
  second has three features with the same AUC, the double nearest to \<open>0.7\<close>, which is
  \<open>3152519739159347 / 2 ^ 52\<close>.
\<close>

definition module_tiny :: regulome where
  "module_tiny = module_11\<lparr>gene2weights := [(''g1'', Fin (1 / 2 ^ 600))]\<rparr>"

definition db_tiny :: ranking_database where
  "db_tiny =
     \<lparr>db_name = ''db1'', total_genes = 10,
      load = (\<lambda>modul. \<lparr>df_index = [''f1'', ''f2''],
                        df_columns = [''g1''],
                        df_values = [[1], [2]]\<rparr>)\<rparr>"

definition module_07 :: regulome where
  "module_07 = module_11\<lparr>gene2weights := [(''g1'', Fin (3152519739159347 / 2 ^ 52))]\<rparr>"

definition db_three :: ranking_database where
  "db_three =
     \<lparr>db_name = ''db3'', total_genes = 10,
      load = (\<lambda>modul. \<lparr>df_index = [''f1'', ''f2'', ''f3''],
                        df_columns = [''g1''],
                        df_values = [[1], [1], [1]]\<rparr>)\<rparr>"

section \<open>Properties\<close>

subsection \<open>Auxiliary facts\<close>

lemma ebind_Inl [simp]: "ebind (Inl e) f = Inl e"
  by (simp add: ebind_def)

lemma ebind_Inr [simp]: "ebind (Inr x) f = f x"
  by (simp add: ebind_def)

lemma ebind_eq_Inr: "ebind m f = Inr y \<longleftrightarrow> (\<exists>x. m = Inr x \<and> f x = Inr y)"
  by (cases m) simp_all

lemma emap_Inr:
  "emap f xs = Inr ys \<Longrightarrow> length ys = length xs \<and> (\<forall>k<length xs. f (xs ! k) = Inr (ys ! k))"
proof (induction xs arbitrary: ys)
  case Nil
  then show ?case by simp
next
  case (Cons x xs)
  from Cons.prems obtain y ys' where y: "f x = Inr y" and ys': "emap f xs = Inr ys'"
    and ys: "ys = y # ys'"
    by (auto simp: ebind_eq_Inr)
  from Cons.IH [OF ys'] show ?case
    using y ys by (auto simp: nth_Cons split: nat.splits)
qed


lemma mask_index_all_False:
  assumes "\<forall>b\<in>set flags. \<not> b" and "length flags = length xs"
  shows "mask_index xs flags = Inr []"
proof -
  have "filter snd (zip xs flags) = []"
    using assms(1) by (auto simp: filter_empty_conv dest: set_zip_rightD)
  with assms(2) show ?thesis by (simp add: mask_index_def)
qed



lemma round_half_even_of_int [simp]: "round_half_even (of_int m) = m"
  by (simp add: round_half_even_def)

lemma powr_powi_2:
  "(2::real) powr (real_of_int E) = 2 powi E"
  "(2::real) powr (real_of_int E + 1) = 2 powi (E + 1)"
  using powr_real_of_int' [of 2 E] powr_real_of_int' [of 2 "E + 1"] by simp_all

lemma floor_log2_bounds:
  assumes "x \<noteq> 0"
  shows "2 powi \<lfloor>log 2 \<bar>x\<bar>\<rfloor> \<le> \<bar>x\<bar>" and "\<bar>x\<bar> < 2 powi (\<lfloor>log 2 \<bar>x\<bar>\<rfloor> + 1)"
proof -
  from assms have pos: "0 < \<bar>x\<bar>" by simp
  define E where "E = \<lfloor>log 2 \<bar>x\<bar>\<rfloor>"
  have "2 powr (real_of_int E) \<le> \<bar>x\<bar> \<and> \<bar>x\<bar> < 2 powr (real_of_int E + 1)"
    using floor_log_eq_powr_iff [OF pos, of 2 E] by (simp add: E_def)
  then have "2 powi E \<le> \<bar>x\<bar> \<and> \<bar>x\<bar> < 2 powi (E + 1)"
    unfolding powr_powi_2 .
  then show "2 powi \<lfloor>log 2 \<bar>x\<bar>\<rfloor> \<le> \<bar>x\<bar>" and "\<bar>x\<bar> < 2 powi (\<lfloor>log 2 \<bar>x\<bar>\<rfloor> + 1)"
    by (simp_all add: E_def)
qed

lemma floor_log2_eq:
  assumes "2 powi E \<le> \<bar>x\<bar>" and "\<bar>x\<bar> < 2 powi (E + 1)"
  shows "\<lfloor>log 2 \<bar>x\<bar>\<rfloor> = E"
proof -
  have "(0::real) < 2 powi E" by simp
  with assms(1) have pos: "0 < \<bar>x\<bar>" by linarith
  have "2 powr (real_of_int E) \<le> \<bar>x\<bar> \<and> \<bar>x\<bar> < 2 powr (real_of_int E + 1)"
    unfolding powr_powi_2 using assms by simp
  then show ?thesis
    using floor_log_eq_powr_iff [OF pos, of 2 E] by simp
qed

lemma binary64_eval:
  assumes "2 powi E \<le> \<bar>x\<bar>" and "\<bar>x\<bar> < 2 powi (E + 1)"
  shows "binary64 x =
     (let e = max (E - 52) (- 1074);
          y = of_int (round_half_even (x / 2 powi e)) * 2 powi e
      in if 2 ^ 1024 \<le> \<bar>y\<bar> then (if 0 < x then PInf else NInf) else Fin y)"
proof -
  have "(0::real) < 2 powi E" by simp
  with assms(1) have "0 < \<bar>x\<bar>" by linarith
  then have "x \<noteq> 0" by simp
  then show ?thesis
    unfolding binary64_def floor_log2_eq [OF assms] by simp
qed

lemma binary64_exact:
  assumes x: "x = of_int m * 2 powi k" and m: "\<bar>m\<bar> < 2 ^ 53" and k: "- 1074 \<le> k"
    and r: "\<bar>x\<bar> < 2 ^ 1024"
  shows "binary64 x = Fin x"
proof (cases "x = 0")
  case True
  then show ?thesis by (simp add: binary64_def)
next
  case False
  define E where "E = \<lfloor>log 2 \<bar>x\<bar>\<rfloor>"
  define e where "e = max (E - 52) (- 1074)"
  have lo: "2 powi E \<le> \<bar>x\<bar>" unfolding E_def using False by (rule floor_log2_bounds)
  have "\<bar>x\<bar> = of_int \<bar>m\<bar> * 2 powi k" unfolding x by (simp add: abs_mult)
  also have "\<dots> < 2 ^ 53 * 2 powi k"
  proof -
    from m have "real_of_int \<bar>m\<bar> < 2 ^ 53" by (metis of_int_less_numeral_power_cancel_iff)
    then show ?thesis by simp
  qed
  also have "\<dots> = 2 powi (53 + k)" by (simp add: power_int_add)
  finally have "2 powi E < (2::real) powi (53 + k)" using lo by linarith
  then have "E < 53 + k"
    using power_int_increasing [of "53 + k" E "2::real"] by (cases "E < 53 + k") simp_all
  with k have ek: "e \<le> k" by (simp add: e_def)
  have "x / 2 powi e = of_int m * 2 powi (k - e)"
    unfolding x by (simp add: power_int_diff)
  also have "\<dots> = of_int (m * 2 ^ nat (k - e))"
    using ek by (simp add: power_int_def)
  finally have q: "x / 2 powi e = of_int (m * 2 ^ nat (k - e))" .
  have y: "of_int (round_half_even (x / 2 powi e)) * 2 powi e = x"
    unfolding q round_half_even_of_int unfolding q [symmetric] by simp
  show ?thesis
    using False r unfolding binary64_def E_def [symmetric] e_def [symmetric] Let_def y
    by simp
qed

lemma binary64_0 [simp]: "binary64 0 = Fin 0"
  by (simp add: binary64_def)

lemma binary64_div_pow2:
  assumes "\<bar>m\<bar> < 2 ^ 53" and "j \<le> 1074"
  shows "binary64 (of_int m / 2 ^ j) = Fin (of_int m / 2 ^ j)"
proof (rule binary64_exact [where m = m and k = "- int j"])
  show "real_of_int m / 2 ^ j = real_of_int m * 2 powi (- int j)"
    by (simp add: power_int_minus field_simps)
  show "\<bar>m\<bar> < 2 ^ 53" by fact
  show "- 1074 \<le> - int j" using assms(2) by simp
  have "\<bar>real_of_int m / 2 ^ j\<bar> \<le> \<bar>real_of_int m\<bar>"
    by (simp add: field_simps mult_le_cancel_left1 abs_mult)
  also have "\<dots> < 2 ^ 53" using assms(1) by (metis of_int_abs of_int_less_numeral_power_cancel_iff)
  also have "\<dots> \<le> (2::real) ^ 1024" by (rule power_increasing) simp_all
  finally show "\<bar>real_of_int m / 2 ^ j\<bar> < 2 ^ 1024" .
qed

lemma binary64_dyadic:
  assumes "\<bar>m\<bar> < 2 ^ 53" and "d = 1 \<or> d = 2 \<or> d = 4 \<or> d = 8 \<or> d = 16"
  shows "binary64 (of_int m / of_int d) = Fin (of_int m / of_int d)"
proof -
  from assms(2) obtain j where "j \<le> 1074" and "real_of_int d = 2 ^ j"
  proof (elim disjE)
    assume "d = 1" then have "real_of_int d = 2 ^ 0" by simp
    then show ?thesis using that [of 0] by simp
  next
    assume "d = 2" then have "real_of_int d = 2 ^ 1" by simp
    then show ?thesis using that [of 1] by simp
  next
    assume "d = 4" then have "real_of_int d = 2 ^ 2" by simp
    then show ?thesis using that [of 2] by simp
  next
    assume "d = 8" then have "real_of_int d = 2 ^ 3" by simp
    then show ?thesis using that [of 3] by simp
  next
    assume "d = 16" then have "real_of_int d = 2 ^ 4" by simp
    then show ?thesis using that [of 4] by simp
  qed
  with binary64_div_pow2 [OF assms(1), of j] show ?thesis by simp
qed

lemma binary64_numerals:
  "binary64 1 = Fin 1"
  "binary64 (- 1) = Fin (- 1)"
  "(numeral a :: int) < 2 ^ 53 \<Longrightarrow> binary64 (numeral a) = Fin (numeral a)"
  "(numeral a :: int) < 2 ^ 53 \<Longrightarrow> binary64 (- numeral a) = Fin (- numeral a)"
  "(numeral b :: int) = 2 \<or> (numeral b :: int) = 4 \<or> (numeral b :: int) = 8 \<or> (numeral b :: int) = 16
     \<Longrightarrow> binary64 (1 / numeral b) = Fin (1 / numeral b)"
  "(numeral b :: int) = 2 \<or> (numeral b :: int) = 4 \<or> (numeral b :: int) = 8 \<or> (numeral b :: int) = 16
     \<Longrightarrow> binary64 (- (1 / numeral b)) = Fin (- (1 / numeral b))"
  "(numeral a :: int) < 2 ^ 53 \<Longrightarrow>
   (numeral b :: int) = 2 \<or> (numeral b :: int) = 4 \<or> (numeral b :: int) = 8 \<or> (numeral b :: int) = 16
     \<Longrightarrow> binary64 (numeral a / numeral b) = Fin (numeral a / numeral b)"
  "(numeral a :: int) < 2 ^ 53 \<Longrightarrow>
   (numeral b :: int) = 2 \<or> (numeral b :: int) = 4 \<or> (numeral b :: int) = 8 \<or> (numeral b :: int) = 16
     \<Longrightarrow> binary64 (- (numeral a / numeral b)) = Fin (- (numeral a / numeral b))"
  using binary64_dyadic [of 1 1] binary64_dyadic [of "- 1" 1]
    binary64_dyadic [of "numeral a" 1] binary64_dyadic [of "- numeral a" 1]
    binary64_dyadic [of 1 "numeral b"] binary64_dyadic [of "- 1" "numeral b"]
    binary64_dyadic [of "numeral a" "numeral b"] binary64_dyadic [of "- numeral a" "numeral b"]
  by simp_all

lemma round_half_even_small:
  assumes "\<bar>x\<bar> < 1/2"
  shows "round_half_even x = 0"
proof (cases "0 \<le> x")
  case True
  with assms have "\<lfloor>x\<rfloor> = 0" by (simp add: floor_eq_iff)
  with assms True show ?thesis by (simp add: round_half_even_def)
next
  case False
  with assms have "\<lfloor>x\<rfloor> = - 1" by (simp add: floor_eq_iff)
  with assms False show ?thesis by (simp add: round_half_even_def)
qed

lemma binary64_tiny:
  assumes "\<bar>x\<bar> < 1 / 2 ^ 1075"
  shows "binary64 x = Fin 0"
proof (cases "x = 0")
  case True
  then show ?thesis by (simp add: binary64_def)
next
  case False
  define E where "E = \<lfloor>log 2 \<bar>x\<bar>\<rfloor>"
  have "2 powi E \<le> \<bar>x\<bar>" unfolding E_def using False by (rule floor_log2_bounds)
  also have "\<bar>x\<bar> < 2 powi (- 1075)" using assms by (simp add: power_int_minus field_simps)
  finally have "E < - 1075"
    using power_int_increasing [of "- 1075" E "2::real"] by (cases "E < - 1075") simp_all
  then have e: "max (E - 52) (- 1074) = - 1074" by simp
  have "\<bar>x / 2 powi (- 1074)\<bar> = \<bar>x\<bar> * 2 ^ 1074" by (simp add: power_int_minus abs_mult)
  also have "\<dots> < 1 / 2 ^ 1075 * 2 ^ 1074" using assms by (simp add: mult_strict_right_mono)
  also have "\<dots> = 1 / 2" by simp
  finally have "round_half_even (x / 2 powi (- 1074)) = 0" by (rule round_half_even_small)
  then show ?thesis
    using False unfolding binary64_def E_def [symmetric] Let_def e by simp
qed

lemma binary64_three_times_07: "binary64 (9457559217478041 / 2 ^ 52) = Fin (1182194902184755 / 2 ^ 49)"
  by (subst binary64_eval [where E = 1])
     (simp_all add: round_half_even_def Let_def power_int_minus)

lemma binary64_mean_07: "binary64 (1182194902184755 / 2 ^ 49 / 3) = Fin (6305039478318693 / 2 ^ 53)"
  by (subst binary64_eval [where E = "- 1"])
     (simp_all add: round_half_even_def Let_def power_int_minus)

lemma sqrt_106:
  "sqrt (1 / 81129638414606681695789005144064) = 1 / 9007199254740992"
  by (rule real_sqrt_unique) (simp_all add: power2_eq_square)

lemmas values_07 =
  binary64_div_pow2 [of 3152519739159347 52, simplified]
  binary64_div_pow2 [of 3152519739159347 51, simplified]
  binary64_three_times_07 [simplified] binary64_mean_07 [simplified]
  binary64_div_pow2 [of 1 53, simplified]
  binary64_div_pow2 [of 1 106, simplified]
  binary64_div_pow2 [of 1 105, simplified]
  binary64_div_pow2 [of 3 106, simplified]
  sqrt_106

lemmas values_tiny =
  binary64_div_pow2 [of 1 600, simplified]
  binary64_div_pow2 [of 1 599, simplified]
  binary64_div_pow2 [of 3 600, simplified]
  binary64_div_pow2 [of 3 601, simplified]
  binary64_div_pow2 [of 1 601, simplified]
  binary64_div_pow2 [of "- 1" 601, simplified]

lemmas float_ops = float_add_def float_sub_def float_mul_def float_div_def float_sqrt_def

lemma fdiv_NaN_right: "fdiv x NaN = NaN"
  by (cases x) simp_all

lemma float_sub_self_div_zero: "float_div (float_sub m m) (Fin 0) = NaN"
  by (cases m) (simp_all add: float_ops fsub_def binary64_0)

lemma nes_values_NaN:
  assumes "np_std aucs = NaN \<or> (np_std aucs = Fin 0 \<and> (\<forall>a\<in>set aucs. a = np_mean aucs))"
    and "n \<in> set (nes_values aucs)"
  shows "n = NaN"
proof -
  from assms(2) obtain a where a: "a \<in> set aucs"
    and n: "n = float_div (float_sub a (np_mean aucs)) (np_std aucs)"
    by (auto simp: nes_values_def Let_def)
  from assms(1) show ?thesis
  proof
    assume "np_std aucs = NaN"
    with n show ?thesis by (simp add: float_div_def fdiv_NaN_right)
  next
    assume z: "np_std aucs = Fin 0 \<and> (\<forall>a\<in>set aucs. a = np_mean aucs)"
    with a have "a = np_mean aucs" by blast
    with n z show ?thesis by (simp add: float_sub_self_div_zero)
  qed
qed


lemma enriched_features_none:
  assumes none: "\<forall>n\<in>set ness. \<not> fge n nt"
    and len: "length aucs = length features" "length ness = length aucs"
  shows "enriched_features tf features ness aucs (enriched_features_idx ness nt) = Inr []"
proof -
  let ?idx = "enriched_features_idx ness nt"
  have f: "\<forall>b\<in>set ?idx. \<not> b" using none by (auto simp: enriched_features_idx_def)
  have l: "length ?idx = length ness" by (simp add: enriched_features_idx_def)
  have "mask_index features ?idx = Inr []" "mask_index ness ?idx = Inr []"
    "mask_index aucs ?idx = Inr []"
    using f l len by (simp_all add: mask_index_all_False)
  then show ?thesis by (simp add: enriched_features_def)
qed

lemma length_nes_values: "length (nes_values aucs) = length aucs"
  by (simp add: nes_values_def Let_def)

lemma pd_merge_inner_Nil: "pd_merge_inner [] ann = []"
  by (simp add: pd_merge_inner_def)








lemma sqrt_quarter: "sqrt (1 / 4) = 1 / 2"
  by (simp add: real_sqrt_divide)

lemmas stub_defs = stub_collaborators_def stub_recovery_def stub_leading_edge_def
  stub_noweights_def stub_union_def annotations_f2_def module_11_def module_13_def
  db_four_def db_two_def

lemmas step_defs = recovery_curves_def getitem_def np_sum_def np_mean_def np_std_def fsub_def
  nes_values_def enriched_features_idx_def enriched_features_def mask_index_def
  pd_merge_inner_def leading_edge_baseline_def row_index_def np_random_randint_def
  loop_items_def make_regulome_def module2regulome_score_def MAX_VALUE_def py_reduce_def
  Let_def

lemmas eval_defs = module2regulome_def stub_defs step_defs float_ops binary64_numerals
  sqrt_quarter

subsection \<open>Scoring\<close>

text \<open>
  C5, as stated, at \<open>N = 3\<close>, q-value \<open>0\<close> and identity \<open>1/2\<close>: the first case of the claim
  does not apply, since the identity is defined, so the claim gives
  \<open>3 * (- ln 0) / 100 * 1/2\<close>; the code returns \<open>3 * 1/2\<close>.
\<close>

theorem C5_score_counterexample:
  "module2regulome_score (Fin 3) (Fin 0) (Fin (1/2)) = Inr (Fin (3/2)) \<and>
   score_as_claimed (Fin 3) (Fin 0) (Fin (1/2)) \<noteq> Fin (3/2)"
  by (simp add: module2regulome_score_def score_as_claimed_def ebind_def MAX_VALUE_def)

text \<open>
  C5, amended: the q-value decides the base score and the identity scales it, the two
  independently. For a finite \<open>N\<close>: with the q-value NaN or zero the base score is \<open>N\<close>,
  with a finite positive q-value it is \<open>N * (- ln q) / 100\<close>; the score is the base score
  when the identity is NaN and the base score times the identity when it is a finite
  number. With q-value \<open>exp (-1)\<close> and identity \<open>1/2\<close> the score is \<open>N * (1/100) * (1/2)\<close>.
\<close>

theorem C5_score_amended:
  "(q = NaN \<or> q = Fin 0 \<longrightarrow>
      module2regulome_score (Fin n) q NaN = Inr (Fin n) \<and>
      module2regulome_score (Fin n) q (Fin i) = Inr (Fin (n * i))) \<and>
   (0 < v \<longrightarrow>
      module2regulome_score (Fin n) (Fin v) NaN = Inr (Fin (n * (- ln v) / 100)) \<and>
      module2regulome_score (Fin n) (Fin v) (Fin i) = Inr (Fin (n * (- ln v) / 100 * i))) \<and>
   module2regulome_score (Fin n) (Fin (exp (- 1))) (Fin (1/2)) = Inr (Fin (n * (1/100) * (1/2)))"
  by (auto simp add: module2regulome_score_def ebind_def MAX_VALUE_def)

theorem C5_score_amended_witness:
  "module2regulome_score (Fin 3) (Fin 0) NaN = Inr (Fin 3) \<and>
   module2regulome_score (Fin 3) (Fin 0) (Fin (1/2)) = Inr (Fin (3/2)) \<and>
   module2regulome_score (Fin 3) (Fin 1) NaN = Inr (Fin 0) \<and>
   module2regulome_score (Fin 3) (Fin 1) (Fin (1/2)) = Inr (Fin 0)"
  using C5_score_amended [of "Fin 0" 3 "1/2" 1] by simp

subsection \<open>Pairs without a result\<close>

text \<open>
  C7, as stated, at two pairs of degenerate variance for both of which a regulome is
  returned. For the AUCs \<open>2 ^ -600\<close> and \<open>2 ^ -599\<close> the squared deviations round to zero,
  the standard deviation is exactly \<open>0.0\<close>, the NES are \<open>- infinity\<close> and \<open>+ infinity\<close>, and
  \<open>f2\<close> is selected. For three AUCs equal to the double \<open>0.7\<close> the sum rounds, the mean is
  \<open>0.7 - 2 ^ -53\<close>, the standard deviation \<open>2 ^ -53\<close>, every NES is \<open>1.0\<close>, and at the
  threshold \<open>1.0\<close> all three features are selected.
\<close>

theorem C7_degenerate_counterexample:
  "recovery_curves stub_collaborators db_tiny module_tiny 1500 (Fin (1/20))
     = Inr ([[Fin 1], [Fin 2]], [Fin (1 / 2 ^ 600), Fin (1 / 2 ^ 599)]) \<and>
   np_std [Fin (1 / 2 ^ 600), Fin (1 / 2 ^ 599)] = Fin 0 \<and>
   nes_values [Fin (1 / 2 ^ 600), Fin (1 / 2 ^ 599)] = [NInf, PInf] \<and>
   module2regulome stub_collaborators db_tiny module_tiny annotations_f2 1500 (Fin (1/20)) (Fin 1)
       None False 0
     = Inr (Some \<lparr>name = ''m'', score = PInf, nomenclature = ''HGNC'',
             context_labels = {''db1'', ''top50''}, transcription_factor = ''TF1'',
             gene2weights = [(''g1'', Fin 2), (''array baseline'', Fin (5 / 2)),
                             (''g1'', Fin 1)]\<rparr>) \<and>
   recovery_curves stub_collaborators db_three module_07 1500 (Fin (1/20))
     = Inr ([[Fin 1], [Fin 1], [Fin 1]],
            [Fin (3152519739159347 / 2 ^ 52), Fin (3152519739159347 / 2 ^ 52), Fin (3152519739159347 / 2 ^ 52)]) \<and>
   np_mean [Fin (3152519739159347 / 2 ^ 52), Fin (3152519739159347 / 2 ^ 52), Fin (3152519739159347 / 2 ^ 52)] = Fin (6305039478318693 / 2 ^ 53) \<and>
   np_std [Fin (3152519739159347 / 2 ^ 52), Fin (3152519739159347 / 2 ^ 52), Fin (3152519739159347 / 2 ^ 52)] = Fin (1 / 2 ^ 53) \<and>
   nes_values [Fin (3152519739159347 / 2 ^ 52), Fin (3152519739159347 / 2 ^ 52), Fin (3152519739159347 / 2 ^ 52)] = [Fin 1, Fin 1, Fin 1] \<and>
   module2regulome stub_collaborators db_three module_07 annotations_f2 1500 (Fin (1/20)) (Fin 1)
       None False 0
     = Inr (Some \<lparr>name = ''m'', score = Fin 1, nomenclature = ''HGNC'',
             context_labels = {''db3'', ''top50''}, transcription_factor = ''TF1'',
             gene2weights = [(''g1'', Fin 1), (''array baseline'', Fin 1),
                             (''g1'', Fin 1)]\<rparr>)"
proof (intro conjI)
  show "recovery_curves stub_collaborators db_tiny module_tiny 1500 (Fin (1/20))
     = Inr ([[Fin 1], [Fin 2]], [Fin (1 / 2 ^ 600), Fin (1 / 2 ^ 599)])"
    by (simp add: eval_defs module_tiny_def db_tiny_def values_tiny)
  show "np_std [Fin (1 / 2 ^ 600), Fin (1 / 2 ^ 599)] = Fin 0"
    by (simp add: step_defs float_ops binary64_numerals values_tiny binary64_tiny)
  show "nes_values [Fin (1 / 2 ^ 600), Fin (1 / 2 ^ 599)] = [NInf, PInf]"
    by (simp add: step_defs float_ops binary64_numerals values_tiny binary64_tiny)
  show "module2regulome stub_collaborators db_tiny module_tiny annotations_f2 1500 (Fin (1/20))
       (Fin 1) None False 0
     = Inr (Some \<lparr>name = ''m'', score = PInf, nomenclature = ''HGNC'',
             context_labels = {''db1'', ''top50''}, transcription_factor = ''TF1'',
             gene2weights = [(''g1'', Fin 2), (''array baseline'', Fin (5 / 2)),
                             (''g1'', Fin 1)]\<rparr>)"
    by (simp add: eval_defs module_tiny_def db_tiny_def values_tiny binary64_tiny)
  show "recovery_curves stub_collaborators db_three module_07 1500 (Fin (1/20))
     = Inr ([[Fin 1], [Fin 1], [Fin 1]],
            [Fin (3152519739159347 / 2 ^ 52), Fin (3152519739159347 / 2 ^ 52), Fin (3152519739159347 / 2 ^ 52)])"
    by (simp add: eval_defs module_07_def db_three_def values_07)
  show "np_mean [Fin (3152519739159347 / 2 ^ 52), Fin (3152519739159347 / 2 ^ 52), Fin (3152519739159347 / 2 ^ 52)] = Fin (6305039478318693 / 2 ^ 53)"
    by (simp add: step_defs float_ops binary64_numerals values_07)
  show "np_std [Fin (3152519739159347 / 2 ^ 52), Fin (3152519739159347 / 2 ^ 52), Fin (3152519739159347 / 2 ^ 52)] = Fin (1 / 2 ^ 53)"
    by (simp add: step_defs float_ops binary64_numerals values_07)
  show "nes_values [Fin (3152519739159347 / 2 ^ 52), Fin (3152519739159347 / 2 ^ 52), Fin (3152519739159347 / 2 ^ 52)] = [Fin 1, Fin 1, Fin 1]"
    by (simp add: step_defs float_ops binary64_numerals values_07)
  show "module2regulome stub_collaborators db_three module_07 annotations_f2 1500 (Fin (1/20))
       (Fin 1) None False 0
     = Inr (Some \<lparr>name = ''m'', score = Fin 1, nomenclature = ''HGNC'',
             context_labels = {''db3'', ''top50''}, transcription_factor = ''TF1'',
             gene2weights = [(''g1'', Fin 1), (''array baseline'', Fin 1),
                             (''g1'', Fin 1)]\<rparr>)"
    by (simp add: eval_defs module_07_def db_three_def values_07)
qed

text \<open>
  C7, amended: when the weights are found and the recovery kernel returns one AUC for each
  feature, \<open>module2regulome\<close> returns \<open>None\<close>, with no exception and no regulome, for a
  pair whose feature set is empty, whose AUC standard deviation, as computed, is NaN, or
  is zero with every AUC equal to the computed mean, none of whose features reaches the
  NES threshold, or whose annotation join is empty.
\<close>

theorem C7_none_without_fault:
  assumes rc: "recovery_curves E db modul rt ac = Inr (rccs, aucs)"
    and len: "length aucs = length (df_index (load db modul))"
    and deg: "df_index (load db modul) = [] \<or> np_std aucs = NaN
              \<or> (np_std aucs = Fin 0 \<and> (\<forall>a\<in>set aucs. a = np_mean aucs))
              \<or> (\<forall>n\<in>set (nes_values aucs). \<not> fge n nt)
              \<or> (\<exists>fs. enriched_features (transcription_factor modul) (df_index (load db modul))
                          (nes_values aucs) aucs (enriched_features_idx (nes_values aucs) nt) = Inr fs
                        \<and> pd_merge_inner fs ann = [])"
  shows "module2regulome E db modul ann rt ac nt sf wr draw = Inr None"
proof -
  let ?ness = "nes_values aucs"
  let ?ef = "enriched_features (transcription_factor modul) (df_index (load db modul))
               ?ness aucs (enriched_features_idx ?ness nt)"
  have "\<exists>fs. ?ef = Inr fs \<and> pd_merge_inner fs ann = []"
  proof -
    consider (empty) "df_index (load db modul) = []"
      | (degenerate) "np_std aucs = NaN
                       \<or> (np_std aucs = Fin 0 \<and> (\<forall>a\<in>set aucs. a = np_mean aucs))"
      | (low) "\<forall>n\<in>set ?ness. \<not> fge n nt"
      | (join) "\<exists>fs. ?ef = Inr fs \<and> pd_merge_inner fs ann = []"
      using deg by blast
    then show ?thesis
    proof cases
      case empty
      with len have "\<forall>n\<in>set ?ness. \<not> fge n nt" by (simp add: nes_values_def)
      from enriched_features_none [OF this len length_nes_values]
      show ?thesis by (simp add: pd_merge_inner_Nil)
    next
      case degenerate
      have "\<forall>n\<in>set ?ness. \<not> fge n nt"
      proof
        fix n assume "n \<in> set ?ness"
        with degenerate have "n = NaN" by (rule nes_values_NaN)
        then show "\<not> fge n nt" by simp
      qed
      from enriched_features_none [OF this len length_nes_values]
      show ?thesis by (simp add: pd_merge_inner_Nil)
    next
      case low
      from enriched_features_none [OF this len length_nes_values]
      show ?thesis by (simp add: pd_merge_inner_Nil)
    next
      case join
      then show ?thesis .
    qed
  qed
  then obtain fs where "?ef = Inr fs" and "pd_merge_inner fs ann = []" by blast
  then show ?thesis
    using rc by (simp add: module2regulome_def Let_def)
qed

text \<open>
  Two features of AUC 1: the mean is 1, the standard deviation is zero, both AUCs equal the
  mean, and the result is \<open>None\<close>.
\<close>

theorem C7_none_without_fault_witness:
  "recovery_curves stub_collaborators db_two module_11 1500 (Fin (1/20))
     = Inr ([[Fin 1, Fin 0], [Fin 0, Fin 1]], [Fin 1, Fin 1]) \<and>
   np_std [Fin 1, Fin 1] = Fin 0 \<and>
   np_mean [Fin 1, Fin 1] = Fin 1 \<and>
   module2regulome stub_collaborators db_two module_11 annotations_f2 1500 (Fin (1/20)) (Fin 3)
     None False 0 = Inr None"
proof -
  have rc: "recovery_curves stub_collaborators db_two module_11 1500 (Fin (1/20))
     = Inr ([[Fin 1, Fin 0], [Fin 0, Fin 1]], [Fin 1, Fin 1])"
    by (simp add: eval_defs)
  have len: "length [Fin 1, Fin 1 :: pyfloat] = length (df_index (load db_two module_11))"
    by (simp add: stub_defs)
  have std: "np_std [Fin 1, Fin 1] = Fin 0"
    by (simp add: eval_defs)
  have mean: "np_mean [Fin 1, Fin 1] = Fin 1"
    by (simp add: eval_defs)
  from std mean have deg: "df_index (load db_two module_11) = [] \<or> np_std [Fin 1, Fin 1] = NaN
      \<or> (np_std [Fin 1, Fin 1] = Fin 0 \<and> (\<forall>a\<in>set [Fin 1, Fin 1]. a = np_mean [Fin 1, Fin 1]))
      \<or> (\<forall>n\<in>set (nes_values [Fin 1, Fin 1]). \<not> fge n (Fin 3))
      \<or> (\<exists>fs. enriched_features (transcription_factor module_11) (df_index (load db_two module_11))
                  (nes_values [Fin 1, Fin 1]) [Fin 1, Fin 1]
                  (enriched_features_idx (nes_values [Fin 1, Fin 1]) (Fin 3)) = Inr fs
                \<and> pd_merge_inner fs annotations_f2 = [])"
    by simp
  from C7_none_without_fault [OF rc len deg] rc std mean show ?thesis by blast
qed

subsection \<open>The empty random range\<close>



text \<open>
  The bound is that of the rounded product: with six features and the double nearest to
  \<open>1/6\<close>, which is \<open>6004799503160661 / 2 ^ 55\<close>, the exact product is below 1 and the product
  of the machine is \<open>1.0\<close>, so that the bound is 1 and the range is not empty.
\<close>

lemma bound_of_six_sixths:
  "py_int (float_mul (binary64 (real 6)) (Fin (6004799503160661 / 2 ^ 55))) = Inr 1 \<and>
   \<lfloor>real 6 * (6004799503160661 / 2 ^ 55)\<rfloor> = 0"
proof -
  have "binary64 (6 * (6004799503160661 / 2 ^ 55)) = Fin 1"
    by (subst binary64_eval [where E = "- 1"])
       (simp_all add: round_half_even_def Let_def power_int_minus)
  then show ?thesis
    by (simp add: float_mul_def binary64_numerals)
qed

subsection \<open>The NES threshold\<close>



subsection \<open>The fields of the regulomes\<close>

text \<open>
  C8 at the pair of C2, with features \<open>f1\<close> and \<open>f2\<close> enriched and only \<open>f2\<close> annotated.
  The one regulome built is that of \<open>f2\<close>. Its name, nomenclature, transcription factor,
  context and score are as the claim says, but its gene weights are what the leading-edge
  kernel returns for the curve \<open>[1, 1]\<close> and the ranks \<open>[1, 1]\<close> of \<open>f1\<close>, and not what it
  returns for the curve \<open>[2, 0]\<close> and the ranks \<open>[2, 0]\<close> of \<open>f2\<close>.
\<close>

theorem C8_gene2weights_of_other_feature:
  "recovery_curves stub_collaborators db_four module_11 1500 (Fin (1/20))
     = Inr ([[Fin 1, Fin 1], [Fin 2, Fin 0], [Fin 0, Fin 0], [Fin 0, Fin 0]],
            [Fin 2, Fin 2, Fin 0, Fin 0]) \<and>
   df_index (load db_four module_11) = [''f1'', ''f2'', ''f3'', ''f4''] \<and>
   df_values (load db_four module_11) = [[1, 1], [2, 0], [0, 0], [0, 0]] \<and>
   pd_merge_inner rows_f1_f2 annotations_f2
     = [\<lparr>gene_name = ''TF1'', motif_id = ''f2'', NES = Fin 1, AUC = Fin 2,
         motif_similarity_qvalue = Fin 0, orthologous_identity = NaN\<rparr>] \<and>
   module2regulome stub_collaborators db_four module_11 annotations_f2 1500 (Fin (1/20)) (Fin 1)
       (Some (Fin (1/2))) False 1
     = Inr (Some regulome_f2) \<and>
   name regulome_f2 = name module_11 \<and>
   nomenclature regulome_f2 = nomenclature module_11 \<and>
   transcription_factor regulome_f2 = transcription_factor module_11 \<and>
   context_labels regulome_f2 = context_labels module_11 \<union> {db_name db_four} \<and>
   module2regulome_score (Fin 1) (Fin 0) NaN = Inr (score regulome_f2) \<and>
   gene2weights regulome_f2
     = leading_edge stub_collaborators [Fin 1, Fin 1] (Scalar (Fin 3)) [1, 1] [''g1'', ''g2'']
         (noweights stub_collaborators module_11) \<and>
   gene2weights regulome_f2
     \<noteq> leading_edge stub_collaborators [Fin 2, Fin 0] (Scalar (Fin 3)) [2, 0] [''g1'', ''g2'']
         (noweights stub_collaborators module_11)"
proof (intro conjI)
  show "module2regulome stub_collaborators db_four module_11 annotations_f2 1500 (Fin (1/20))
       (Fin 1) (Some (Fin (1/2))) False 1
     = Inr (Some regulome_f2)"
    by (simp add: eval_defs regulome_f2_def)
  show "recovery_curves stub_collaborators db_four module_11 1500 (Fin (1/20))
     = Inr ([[Fin 1, Fin 1], [Fin 2, Fin 0], [Fin 0, Fin 0], [Fin 0, Fin 0]],
            [Fin 2, Fin 2, Fin 0, Fin 0])"
    by (simp add: eval_defs)
qed (auto simp add: stub_defs step_defs regulome_f2_def rows_f1_f2_def)

subsection \<open>The batch\<close>

text \<open>
  C1: the tasks are the calls of \<open>module2regulome\<close> on the cross product of databases and
  modules, database-major, but every call is made with \<open>weighted_recovery = False\<close>,
  whatever the caller passed, and \<open>derive_regulomes\<close> never returns a list: when the
  annotations load and no task raises, \<open>filter\<close> is called with a keyword argument and
  raises \<open>TypeError\<close>. On one database and one module with \<open>weighted_recovery = True\<close>
  the task is the call with \<open>False\<close>, whose result differs from that of the call with
  \<open>True\<close>, and the batch raises.
\<close>

theorem C1_derive_regulomes:
  "derive_regulomes E rnkdbs modules fname rt ac nt fdr oit sf wr nw draws \<noteq> Inr regs \<and>
   derive_regulomes_tasks E rnkdbs modules ann rt ac nt sf draws
     = map (\<lambda>(k, db, gs). module2regulome E db gs ann rt ac nt sf False (draws k))
         (enumerate 0 (List.product rnkdbs modules)) \<and>
   derive_regulomes stub_collaborators [db_two] [module_13] ''motifs.tbl'' 1500 (Fin (1/20)) (Fin 1)
       (Fin (1/1000)) (Fin 0) None True None (\<lambda>k. 0) = Inl TypeError \<and>
   derive_regulomes_tasks stub_collaborators [db_two] [module_13] annotations_f2 1500 (Fin (1/20))
       (Fin 1) None (\<lambda>k. 0)
     = [module2regulome stub_collaborators db_two module_13 annotations_f2 1500 (Fin (1/20))
          (Fin 1) None False 0] \<and>
   module2regulome stub_collaborators db_two module_13 annotations_f2 1500 (Fin (1/20)) (Fin 1)
       None True 0
     \<noteq> module2regulome stub_collaborators db_two module_13 annotations_f2 1500 (Fin (1/20)) (Fin 1)
         None False 0"
proof (intro conjI)
  show "derive_regulomes E rnkdbs modules fname rt ac nt fdr oit sf wr nw draws \<noteq> Inr regs"
    by (simp add: derive_regulomes_def ebind_def partial_def builtin_filter_def split: sum.splits)
  show "derive_regulomes_tasks E rnkdbs modules ann rt ac nt sf draws
     = map (\<lambda>(k, db, gs). module2regulome E db gs ann rt ac nt sf False (draws k))
         (enumerate 0 (List.product rnkdbs modules))"
    by (simp add: derive_regulomes_tasks_def weighted_recovery_default_def product_concat_map)
  have t: "module2regulome stub_collaborators db_two module_13 annotations_f2 1500 (Fin (1/20))
             (Fin 1) None True 0
           = Inr (Some \<lparr>name = ''m'', score = Fin 1, nomenclature = ''HGNC'',
               context_labels = {''db2'', ''top50''}, transcription_factor = ''TF1'',
               gene2weights = [(''g1'', Fin 0), (''g2'', Fin 1),
                  (''array baseline'', Fin (3 / 2)), (''array baseline'', Fin (3 / 2)),
                  (''g1'', Fin 1), (''g2'', Fin 3)]\<rparr>)"
    by (simp add: eval_defs)
  have f: "module2regulome stub_collaborators db_two module_13 annotations_f2 1500 (Fin (1/20))
             (Fin 1) None False 0
           = Inr (Some \<lparr>name = ''m'', score = Fin 1, nomenclature = ''HGNC'',
               context_labels = {''db2'', ''top50''}, transcription_factor = ''TF1'',
               gene2weights = [(''g1'', Fin 0), (''g2'', Fin 1),
                  (''array baseline'', Fin (3 / 2)), (''array baseline'', Fin (3 / 2)),
                  (''g1'', Fin 1), (''g2'', Fin 1)]\<rparr>)"
    by (simp add: eval_defs)
  show "module2regulome stub_collaborators db_two module_13 annotations_f2 1500 (Fin (1/20)) (Fin 1)
       None True 0
     \<noteq> module2regulome stub_collaborators db_two module_13 annotations_f2 1500 (Fin (1/20)) (Fin 1)
         None False 0"
    unfolding t f by simp
  show tasks: "derive_regulomes_tasks stub_collaborators [db_two] [module_13] annotations_f2 1500
       (Fin (1/20)) (Fin 1) None (\<lambda>k. 0)
     = [module2regulome stub_collaborators db_two module_13 annotations_f2 1500 (Fin (1/20))
          (Fin 1) None False 0]"
    by (simp add: derive_regulomes_tasks_def weighted_recovery_default_def enumerate_eq_zip)
  show "derive_regulomes stub_collaborators [db_two] [module_13] ''motifs.tbl'' 1500 (Fin (1/20)) (Fin 1)
       (Fin (1/1000)) (Fin 0) None True None (\<lambda>k. 0) = Inl TypeError"
    unfolding derive_regulomes_def
    by (simp add: stub_collaborators_def tasks [unfolded stub_collaborators_def] f [unfolded stub_collaborators_def] partial_def builtin_filter_def)
qed

subsection \<open>The rows handed to the leading-edge kernel\<close>

text \<open>
  C2 at a pair with two enriched features \<open>f1\<close> and \<open>f2\<close> of which only \<open>f2\<close> is
  annotated: the loop has one item, the annotated row of \<open>f2\<close> together with the curve
  \<open>[1, 1]\<close> and the ranks \<open>[1, 1]\<close> of \<open>f1\<close>; the curve \<open>[2, 0]\<close> of \<open>f2\<close> never reaches
  the kernel, and the gene weights of the result are built from the curve of \<open>f1\<close>.
\<close>

theorem C2_leading_edge_rows:
  "recovery_curves stub_collaborators db_four module_11 1500 (Fin (1/20))
     = Inr ([[Fin 1, Fin 1], [Fin 2, Fin 0], [Fin 0, Fin 0], [Fin 0, Fin 0]],
            [Fin 2, Fin 2, Fin 0, Fin 0]) \<and>
   nes_values [Fin 2, Fin 2, Fin 0, Fin 0] = [Fin 1, Fin 1, Fin (- 1), Fin (- 1)] \<and>
   enriched_features ''TF1'' [''f1'', ''f2'', ''f3'', ''f4'']
       [Fin 1, Fin 1, Fin (- 1), Fin (- 1)] [Fin 2, Fin 2, Fin 0, Fin 0]
       (enriched_features_idx [Fin 1, Fin 1, Fin (- 1), Fin (- 1)] (Fin 1))
     = Inr [\<lparr>gene_name = ''TF1'', motif_id = ''f1'', NES = Fin 1, AUC = Fin 2\<rparr>,
            \<lparr>gene_name = ''TF1'', motif_id = ''f2'', NES = Fin 1, AUC = Fin 2\<rparr>] \<and>
   loop_items
       (pd_merge_inner
          [\<lparr>gene_name = ''TF1'', motif_id = ''f1'', NES = Fin 1, AUC = Fin 2\<rparr>,
           \<lparr>gene_name = ''TF1'', motif_id = ''f2'', NES = Fin 1, AUC = Fin 2\<rparr>]
          annotations_f2)
       [[Fin 1, Fin 1], [Fin 2, Fin 0], [Fin 0, Fin 0], [Fin 0, Fin 0]]
       [[1, 1], [2, 0], [0, 0], [0, 0]]
       (enriched_features_idx [Fin 1, Fin 1, Fin (- 1), Fin (- 1)] (Fin 1))
     = Inr [(\<lparr>gene_name = ''TF1'', motif_id = ''f2'', NES = Fin 1, AUC = Fin 2,
              motif_similarity_qvalue = Fin 0, orthologous_identity = NaN\<rparr>,
             [Fin 1, Fin 1], [1, 1])] \<and>
   module2regulome stub_collaborators db_four module_11 annotations_f2 1500 (Fin (1/20)) (Fin 1)
       None True 0
     = Inr (Some \<lparr>name = ''m'', score = Fin 1, nomenclature = ''HGNC'',
             context_labels = {''db4'', ''top50''}, transcription_factor = ''TF1'',
             gene2weights = [(''g1'', Fin 1), (''g2'', Fin 1),
                (''array baseline'',
                 float_add (Fin (3 / 4)) (float_mul (Fin 2) (float_sqrt (Fin (11 / 16))))),
                (''array baseline'',
                 float_add (Fin (1 / 4)) (float_mul (Fin 2) (float_sqrt (Fin (3 / 16))))),
                (''g1'', Fin 1), (''g2'', Fin 1)]\<rparr>)"
  by (simp add: eval_defs)

subsection \<open>The sampled baseline\<close>

text \<open>
  C3 at four features and \<open>avgrcc_sample_frac = 0.5\<close>: \<open>sample_idx\<close> is the one index 0 or
  1, and the baseline is the mean and the mean plus two standard deviations of that one
  row, a pair of numbers: \<open>(1, 3)\<close> from row 1 and \<open>(1, 1)\<close> from row 0. With two features
  and a fraction of 1 the sample should be both rows, for which the unsampled branch
  gives the curves \<open>[1, 1]\<close> and \<open>[3, 3]\<close>; the code gives the numbers 1 and 3.
\<close>

theorem C3_baseline_single_row:
  "leading_edge_baseline [[Fin 1, Fin 1], [Fin 2, Fin 0], [Fin 0, Fin 0], [Fin 0, Fin 0]]
       [''f1'', ''f2'', ''f3'', ''f4''] (Some (Fin (1/2))) 1
     = Inr (Scalar (Fin 1), Scalar (Fin 3)) \<and>
   leading_edge_baseline [[Fin 1, Fin 1], [Fin 2, Fin 0], [Fin 0, Fin 0], [Fin 0, Fin 0]]
       [''f1'', ''f2'', ''f3'', ''f4''] (Some (Fin (1/2))) 0
     = Inr (Scalar (Fin 1), Scalar (Fin 1)) \<and>
   leading_edge_baseline [[Fin 2, Fin 0], [Fin 0, Fin 2]] [''f1'', ''f2''] (Some (Fin 1)) 0
     = Inr (Scalar (Fin 1), Scalar (Fin 3)) \<and>
   leading_edge_baseline [[Fin 2, Fin 0], [Fin 0, Fin 2]] [''f1'', ''f2''] None 0
     = Inr (Array1 [Fin 1, Fin 1], Array1 [Fin 3, Fin 3]) \<and>
   module2regulome stub_collaborators db_four module_11 annotations_f2 1500 (Fin (1/20)) (Fin 1)
       (Some (Fin (1/2))) True 1
     = Inr (Some \<lparr>name = ''m'', score = Fin 1, nomenclature = ''HGNC'',
             context_labels = {''db4'', ''top50''}, transcription_factor = ''TF1'',
             gene2weights = [(''g1'', Fin 1), (''g2'', Fin 1), (''scalar baseline'', Fin 3),
                             (''g1'', Fin 1), (''g2'', Fin 1)]\<rparr>)"
  by (simp add: eval_defs)

subsection \<open>The weights handed to the recovery kernel\<close>

text \<open>
  C4 at \<open>weighted_recovery = False\<close> and a module with the weights 1 and 3: the recovery
  kernel is called with the weights \<open>[1, 3]\<close> of the module, and the AUCs of the stand-in
  are \<open>[1, 3]\<close>, where the uniform-weight copy gives \<open>[1, 1]\<close>. Feature \<open>f2\<close> is enriched
  because of the weights and a regulome is returned, while the same call on the
  uniform-weight copy of the module returns \<open>None\<close>. The module handed to the leading-edge kernel is
  the uniform-weight copy (the last two gene weights of the result).
\<close>

theorem C4_weights_reach_recovery:
  "recovery_curves stub_collaborators db_two module_13 1500 (Fin (1/20))
     = Inr (recovery stub_collaborators (load db_two module_13) (total_genes db_two)
              [Fin 1, Fin 3] 1500 (Fin (1/20))) \<and>
   recovery_curves stub_collaborators db_two module_13 1500 (Fin (1/20))
     = Inr ([[Fin 1, Fin 0], [Fin 0, Fin 1]], [Fin 1, Fin 3]) \<and>
   recovery_curves stub_collaborators db_two (noweights stub_collaborators module_13) 1500
       (Fin (1/20))
     = Inr ([[Fin 1, Fin 0], [Fin 0, Fin 1]], [Fin 1, Fin 1]) \<and>
   module2regulome stub_collaborators db_two module_13 annotations_f2 1500 (Fin (1/20)) (Fin 1)
       None False 0
     = Inr (Some \<lparr>name = ''m'', score = Fin 1, nomenclature = ''HGNC'',
               context_labels = {''db2'', ''top50''}, transcription_factor = ''TF1'',
               gene2weights = [(''g1'', Fin 0), (''g2'', Fin 1),
                  (''array baseline'', Fin (3 / 2)), (''array baseline'', Fin (3 / 2)),
                  (''g1'', Fin 1), (''g2'', Fin 1)]\<rparr>) \<and>
   module2regulome stub_collaborators db_two (noweights stub_collaborators module_13)
       annotations_f2 1500 (Fin (1/20)) (Fin 1) None False 0
     = Inr None"
  by (simp add: eval_defs)

end
